theory Spec2Isabelle
  imports Main "HOL-Library.Sublist" "HOL-Library.AList" "HOL-Library.Word"
begin

section \<open>Errors\<close>

text \<open>
  The Go code returns values of the interface type \<open>error\<close>. The sentinel errors the two
  packages return are constructors; \<open>ErrOther\<close> stands for any error a collaborator
  (the DNS provider) hands back.
\<close>

datatype error =
    ErrDomainNotFound
  | ErrDBRecordNotFound
  | ErrDBConditionalCheckFailed
  | ErrOther string

section \<open>Package dns (dns/utils.go)\<close>

subsection \<open>The functions of Go's package strings that the code calls\<close>

text \<open>
  \<open>strings.HasPrefix(s, prefix)\<close> is
  \<open>len(s) >= len(prefix) && s[0:len(prefix)] == prefix\<close>, and
  \<open>strings.HasSuffix(s, suffix)\<close> is
  \<open>len(s) >= len(suffix) && s[len(s)-len(suffix):] == suffix\<close>.
  Go strings are byte sequences, as \<open>string\<close> is here.
\<close>

definition HasPrefix :: "string \<Rightarrow> string \<Rightarrow> bool" where
  "HasPrefix s pre = (length pre \<le> length s \<and> take (length pre) s = pre)"

definition HasSuffix :: "string \<Rightarrow> string \<Rightarrow> bool" where
  "HasSuffix s suf = (length suf \<le> length s \<and> drop (length s - length suf) s = suf)"

text \<open>
  \<open>strings.Split(s, sep)\<close> for a separator of one byte, the only way the package calls
  it (\<open>dnsNameSeparator = "."\<close>): the substrings between the occurrences of the
  separator. A string without the separator, the empty string included, gives a slice of
  one element.
\<close>

fun Split :: "string \<Rightarrow> char \<Rightarrow> string list" where
  "Split [] sep = [[]]"
| "Split (c # cs) sep =
     (if c = sep then [] # Split cs sep
      else (case Split cs sep of
              [] \<Rightarrow> [[c]]
            | n # ns \<Rightarrow> (c # n) # ns))"

subsection \<open>Names\<close>

definition dnsNameSeparator :: string where
  "dnsNameSeparator = ''.''"

definition GenDNSName :: "string \<Rightarrow> string \<Rightarrow> string" where
  "GenDNSName svcMemberName domainName = svcMemberName @ dnsNameSeparator @ domainName"

text \<open>
  \<open>GetDomainNameFromDNSName\<close> returns \<open>("", ErrDomainNotFound)\<close> or \<open>(domain, nil)\<close>;
  the model returns the error or the domain. The two index reads are in range behind the
  length check.
\<close>

definition GetDomainNameFromDNSName :: "string \<Rightarrow> error + string" where
  "GetDomainNameFromDNSName dnsname =
     (let names = Split dnsname (hd dnsNameSeparator) in
      if length names < 3 then Inl ErrDomainNotFound
      else
        let l = length names;
            domain = names ! (l - 2) @ dnsNameSeparator @ names ! (l - 1)
        in Inr domain)"

definition FormatMgtServiceURL :: "string \<Rightarrow> bool \<Rightarrow> string" where
  "FormatMgtServiceURL surl tlsEnabled =
     (if \<not> HasPrefix surl ''http'' then
        (if tlsEnabled then ''https://'' @ surl @ ''/''
         else ''http://'' @ surl @ ''/'')
      else if \<not> HasSuffix surl ''/'' then surl @ ''/''
      else surl)"

subsection \<open>Registration\<close>

text \<open>
  \<open>server.Info\<close> is an interface of read-only getters; the record holds what
  \<open>GetLocalVpcID\<close>, \<open>GetLocalRegion\<close> and \<open>GetLocalHostname\<close> return.
\<close>

record Info =
  LocalVpcID :: string
  LocalRegion :: string
  LocalHostname :: string

text \<open>
  The interface \<open>DNS\<close> is the DNS-provider collaborator. Its two methods have effects
  on the provider, so each takes the provider's state \<open>'s\<close> and returns the new one.
\<close>

record 's DNS =
  GetOrCreateHostedZoneIDByName ::
    "string \<Rightarrow> string \<Rightarrow> string \<Rightarrow> bool \<Rightarrow> 's \<Rightarrow> (error + string) \<times> 's"
  UpdateServiceDNSRecord ::
    "string \<Rightarrow> string \<Rightarrow> string \<Rightarrow> 's \<Rightarrow> error option \<times> 's"

text \<open>Every invocation of the collaborator is recorded, with its arguments.\<close>

datatype dns_call =
    CallGetOrCreateHostedZoneIDByName string string string bool
  | CallUpdateServiceDNSRecord string string string

definition RegisterDNSName ::
  "string \<Rightarrow> string \<Rightarrow> Info \<Rightarrow> 's DNS \<Rightarrow> 's \<times> dns_call list
     \<Rightarrow> error option \<times> ('s \<times> dns_call list)" where
  "RegisterDNSName domainName dnsName serverInfo dnsIns w =
     (if \<not> HasSuffix dnsName domainName then (Some ErrDomainNotFound, w)
      else
        let private = True;
            vpcID = LocalVpcID serverInfo;
            vpcRegion = LocalRegion serverInfo;
            (r, st1) = GetOrCreateHostedZoneIDByName dnsIns domainName vpcID vpcRegion private (fst w);
            log1 = snd w @ [CallGetOrCreateHostedZoneIDByName domainName vpcID vpcRegion private]
        in case r of
             Inl err \<Rightarrow> (Some err, (st1, log1))
           | Inr hostedZoneID \<Rightarrow>
               let hostname = LocalHostname serverInfo;
                   (e, st2) = UpdateServiceDNSRecord dnsIns dnsName hostname hostedZoneID st1
               in (e, (st2, log1 @ [CallUpdateServiceDNSRecord dnsName hostname hostedZoneID])))"

section \<open>Package db (the in-memory backend, memdb.go)\<close>

subsection \<open>The records of package common\<close>

text \<open>
  Modelled from the spec: the declarations of \<open>common.Device\<close>, \<open>common.Service\<close>,
  \<open>common.ServiceAttr\<close>, \<open>common.Volume\<close> and \<open>common.ConfigFile\<close> are in package
  common, which memdb.go imports. The fields are the ones the copy functions of memdb.go
  read and write, in that order. Identifiers are opaque strings; timestamps, replica count
  and volume size are \<open>int64\<close>, the mode bits are \<open>uint32\<close>, the content is a string.
  No property below depends on the type of a field that is not an identity field.
\<close>

record Device =
  ClusterName :: string
  DeviceName :: string
  ServiceName :: string

record Service =
  ClusterName :: string
  ServiceName :: string
  ServiceUUID :: string

record ServiceAttr =
  ServiceUUID :: string
  ServiceStatus :: string
  LastModified :: "64 word"
  Replicas :: "64 word"
  VolumeSizeGB :: "64 word"
  ClusterName :: string
  ServiceName :: string
  DeviceName :: string
  HasStrictMembership :: bool
  DomainName :: string
  HostedZoneID :: string

text \<open>
  Modelled from the spec: the type of \<open>Configs\<close> is declared in package common; it is
  the list of config-file references bound to a member, a Go slice. A slice
  value is a header that refers to a backing array: copying the header (an assignment, a
  struct copy, a struct literal) does not copy the array. The header is \<open>NilSlice\<close> or the
  address of the backing array with the slice's length; the arrays live in a heap. No
  function of the backend appends to a slice or slices one again, so the capacity is left
  out.
\<close>

type_synonym addr = nat

datatype slice = NilSlice | Slice addr nat

type_synonym 'c heap = "addr \<rightharpoonup> 'c list"

record Volume =
  ServiceUUID :: string
  VolumeID :: string
  LastModified :: "64 word"
  DeviceName :: string
  AvailableZone :: string
  TaskID :: string
  ContainerInstanceID :: string
  ServerInstanceID :: string
  MemberName :: string
  Configs :: slice

record ConfigFile =
  FileID :: string
  FileMD5 :: string
  FileName :: string
  FileMode :: "32 word"
  ServiceUUID :: string
  LastModified :: "64 word"
  Content :: string

subsection \<open>What a caller does with a slice\<close>

text \<open>
  \<open>slice_elems h s\<close> reads the elements of a slice, \<open>slice_store h s i c\<close> is the
  assignment \<open>s[i] = c\<close>, which panics (\<open>None\<close>) out of range.
\<close>

definition slice_elems :: "'c heap \<Rightarrow> slice \<Rightarrow> 'c list" where
  "slice_elems h s =
     (case s of
        NilSlice \<Rightarrow> []
      | Slice a n \<Rightarrow> (case h a of None \<Rightarrow> [] | Some xs \<Rightarrow> take n xs))"

definition slice_store :: "'c heap \<Rightarrow> slice \<Rightarrow> nat \<Rightarrow> 'c \<Rightarrow> 'c heap option" where
  "slice_store h s i c =
     (case s of
        NilSlice \<Rightarrow> None
      | Slice a n \<Rightarrow>
          (case h a of
             None \<Rightarrow> None
           | Some xs \<Rightarrow> if i < n \<and> i < length xs then Some (h(a \<mapsto> xs[i := c])) else None))"

subsection \<open>The store\<close>

text \<open>
  Each Go map is an association list: \<open>m[key]\<close> is \<open>map_of m key\<close>, \<open>m[key] = v\<close> is
  \<open>AList.update key v m\<close>, \<open>delete(m, key)\<close> is \<open>AList.delete key m\<close>. A \<open>range\<close> over
  the map visits the entries in the order of the list; Go leaves that order open, so
  properties of a listing are stated about the set of its elements. The maps hold struct
  values (\<open>d.devMap[key] = *dev\<close> copies the struct). Every method holds \<open>mlock\<close> from
  its first to its last statement, so a method is one atomic step on the store; the
  context argument is not used and logging is left out.
\<close>

record MemDB =
  devMap :: "(string \<times> Device) list"
  svcMap :: "(string \<times> Service) list"
  svcAttrMap :: "(string \<times> ServiceAttr) list"
  volMap :: "(string \<times> Volume) list"
  cfgMap :: "(string \<times> ConfigFile) list"

definition NewMemDB :: MemDB where
  "NewMemDB = \<lparr>devMap = [], svcMap = [], svcAttrMap = [], volMap = [], cfgMap = []\<rparr>"

subsection \<open>Copies\<close>

definition copyDevice :: "Device \<Rightarrow> Device" where
  "copyDevice t =
     \<lparr>Device.ClusterName = Device.ClusterName t,
      Device.DeviceName = Device.DeviceName t,
      Device.ServiceName = Device.ServiceName t\<rparr>"

definition copyService :: "Service \<Rightarrow> Service" where
  "copyService t =
     \<lparr>Service.ClusterName = Service.ClusterName t,
      Service.ServiceName = Service.ServiceName t,
      Service.ServiceUUID = Service.ServiceUUID t\<rparr>"

definition copyServiceAttr :: "ServiceAttr \<Rightarrow> ServiceAttr" where
  "copyServiceAttr t =
     \<lparr>ServiceAttr.ServiceUUID = ServiceAttr.ServiceUUID t,
      ServiceAttr.ServiceStatus = ServiceAttr.ServiceStatus t,
      ServiceAttr.LastModified = ServiceAttr.LastModified t,
      ServiceAttr.Replicas = ServiceAttr.Replicas t,
      ServiceAttr.VolumeSizeGB = ServiceAttr.VolumeSizeGB t,
      ServiceAttr.ClusterName = ServiceAttr.ClusterName t,
      ServiceAttr.ServiceName = ServiceAttr.ServiceName t,
      ServiceAttr.DeviceName = ServiceAttr.DeviceName t,
      ServiceAttr.HasStrictMembership = ServiceAttr.HasStrictMembership t,
      ServiceAttr.DomainName = ServiceAttr.DomainName t,
      ServiceAttr.HostedZoneID = ServiceAttr.HostedZoneID t\<rparr>"

text \<open>\<open>Configs: t.Configs\<close> copies the slice header: the copy refers to the same array.\<close>

definition copyVolume :: "Volume \<Rightarrow> Volume" where
  "copyVolume t =
     \<lparr>Volume.ServiceUUID = Volume.ServiceUUID t,
      Volume.VolumeID = Volume.VolumeID t,
      Volume.LastModified = Volume.LastModified t,
      Volume.DeviceName = Volume.DeviceName t,
      Volume.AvailableZone = Volume.AvailableZone t,
      Volume.TaskID = Volume.TaskID t,
      Volume.ContainerInstanceID = Volume.ContainerInstanceID t,
      Volume.ServerInstanceID = Volume.ServerInstanceID t,
      Volume.MemberName = Volume.MemberName t,
      Volume.Configs = Volume.Configs t\<rparr>"

definition copyConfigFile :: "ConfigFile \<Rightarrow> ConfigFile" where
  "copyConfigFile t =
     \<lparr>ConfigFile.FileID = ConfigFile.FileID t,
      ConfigFile.FileMD5 = ConfigFile.FileMD5 t,
      ConfigFile.FileName = ConfigFile.FileName t,
      ConfigFile.FileMode = ConfigFile.FileMode t,
      ConfigFile.ServiceUUID = ConfigFile.ServiceUUID t,
      ConfigFile.LastModified = ConfigFile.LastModified t,
      ConfigFile.Content = ConfigFile.Content t\<rparr>"

subsection \<open>Devices\<close>

text \<open>
  A method that returns \<open>error\<close> returns \<open>None\<close> for \<open>nil\<close>, with the store after the
  call; a method that returns a value and an error returns one of the two, and leaves
  the store as it is.
\<close>

definition CreateDevice :: "MemDB \<Rightarrow> Device \<Rightarrow> error option \<times> MemDB" where
  "CreateDevice d dev =
     (let key = Device.ClusterName dev @ Device.DeviceName dev in
      case map_of (devMap d) key of
        Some _ \<Rightarrow> (Some ErrDBConditionalCheckFailed, d)
      | None \<Rightarrow> (None, d\<lparr>devMap := AList.update key dev (devMap d)\<rparr>))"

definition GetDevice :: "MemDB \<Rightarrow> string \<Rightarrow> string \<Rightarrow> error + Device" where
  "GetDevice d clusterName deviceName =
     (let key = clusterName @ deviceName in
      case map_of (devMap d) key of
        None \<Rightarrow> Inl ErrDBRecordNotFound
      | Some cdev \<Rightarrow> Inr (copyDevice cdev))"

definition DeleteDevice :: "MemDB \<Rightarrow> string \<Rightarrow> string \<Rightarrow> error option \<times> MemDB" where
  "DeleteDevice d clusterName deviceName =
     (let key = clusterName @ deviceName in
      case map_of (devMap d) key of
        None \<Rightarrow> (Some ErrDBRecordNotFound, d)
      | Some _ \<Rightarrow> (None, d\<lparr>devMap := AList.delete key (devMap d)\<rparr>))"

definition listDevicesWithLimit :: "MemDB \<Rightarrow> string \<Rightarrow> 64 word \<Rightarrow> error + Device list" where
  "listDevicesWithLimit d clusterName limit = Inr (map (\<lambda>(key, dev). copyDevice dev) (devMap d))"

definition ListDevices :: "MemDB \<Rightarrow> string \<Rightarrow> error + Device list" where
  "ListDevices d clusterName = listDevicesWithLimit d clusterName 0"

subsection \<open>Services\<close>

definition CreateService :: "MemDB \<Rightarrow> Service \<Rightarrow> error option \<times> MemDB" where
  "CreateService d svc =
     (let key = Service.ClusterName svc @ Service.ServiceName svc in
      case map_of (svcMap d) key of
        Some _ \<Rightarrow> (Some ErrDBConditionalCheckFailed, d)
      | None \<Rightarrow> (None, d\<lparr>svcMap := AList.update key svc (svcMap d)\<rparr>))"

definition GetService :: "MemDB \<Rightarrow> string \<Rightarrow> string \<Rightarrow> error + Service" where
  "GetService d clusterName serviceName =
     (let key = clusterName @ serviceName in
      case map_of (svcMap d) key of
        None \<Rightarrow> Inl ErrDBRecordNotFound
      | Some csvc \<Rightarrow> Inr (copyService csvc))"

definition DeleteService :: "MemDB \<Rightarrow> string \<Rightarrow> string \<Rightarrow> error option \<times> MemDB" where
  "DeleteService d clusterName serviceName =
     (let key = clusterName @ serviceName in
      case map_of (svcMap d) key of
        None \<Rightarrow> (Some ErrDBRecordNotFound, d)
      | Some _ \<Rightarrow> (None, d\<lparr>svcMap := AList.delete key (svcMap d)\<rparr>))"

definition listServicesWithLimit :: "MemDB \<Rightarrow> string \<Rightarrow> 64 word \<Rightarrow> error + Service list" where
  "listServicesWithLimit d clusterName limit = Inr (map (\<lambda>(key, svc). copyService svc) (svcMap d))"

definition ListServices :: "MemDB \<Rightarrow> string \<Rightarrow> error + Service list" where
  "ListServices d clusterName = listServicesWithLimit d clusterName 0"

subsection \<open>Service attributes\<close>

definition CreateServiceAttr :: "MemDB \<Rightarrow> ServiceAttr \<Rightarrow> error option \<times> MemDB" where
  "CreateServiceAttr d attr =
     (case map_of (svcAttrMap d) (ServiceAttr.ServiceUUID attr) of
        Some _ \<Rightarrow> (Some ErrDBConditionalCheckFailed, d)
      | None \<Rightarrow>
          (None, d\<lparr>svcAttrMap := AList.update (ServiceAttr.ServiceUUID attr) attr (svcAttrMap d)\<rparr>))"

definition UpdateServiceAttr :: "MemDB \<Rightarrow> ServiceAttr \<Rightarrow> ServiceAttr \<Rightarrow> error option \<times> MemDB" where
  "UpdateServiceAttr d oldAttr newAttr =
     (case map_of (svcAttrMap d) (ServiceAttr.ServiceUUID oldAttr) of
        None \<Rightarrow> (Some ErrDBRecordNotFound, d)
      | Some _ \<Rightarrow>
          (None,
           d\<lparr>svcAttrMap := AList.update (ServiceAttr.ServiceUUID oldAttr) newAttr (svcAttrMap d)\<rparr>))"

definition GetServiceAttr :: "MemDB \<Rightarrow> string \<Rightarrow> error + ServiceAttr" where
  "GetServiceAttr d serviceUUID =
     (case map_of (svcAttrMap d) serviceUUID of
        None \<Rightarrow> Inl ErrDBRecordNotFound
      | Some cattr \<Rightarrow> Inr (copyServiceAttr cattr))"

definition DeleteServiceAttr :: "MemDB \<Rightarrow> string \<Rightarrow> error option \<times> MemDB" where
  "DeleteServiceAttr d serviceUUID =
     (case map_of (svcAttrMap d) serviceUUID of
        None \<Rightarrow> (Some ErrDBRecordNotFound, d)
      | Some _ \<Rightarrow> (None, d\<lparr>svcAttrMap := AList.delete serviceUUID (svcAttrMap d)\<rparr>))"

subsection \<open>Volumes\<close>

definition CreateVolume :: "MemDB \<Rightarrow> Volume \<Rightarrow> error option \<times> MemDB" where
  "CreateVolume d vol =
     (let key = Volume.ServiceUUID vol @ Volume.VolumeID vol in
      case map_of (volMap d) key of
        Some _ \<Rightarrow> (Some ErrDBConditionalCheckFailed, d)
      | None \<Rightarrow> (None, d\<lparr>volMap := AList.update key vol (volMap d)\<rparr>))"

text \<open>
  \<open>EqualVolume\<close> is a function of package db declared in another file than memdb.go;
  \<open>UpdateVolume\<close> takes it as its first argument here and calls it as the code does, the
  old volume first, the stored one second, and \<open>true\<close>.
\<close>

definition UpdateVolume ::
  "(Volume \<Rightarrow> Volume \<Rightarrow> bool \<Rightarrow> bool) \<Rightarrow> MemDB \<Rightarrow> Volume \<Rightarrow> Volume \<Rightarrow> error option \<times> MemDB" where
  "UpdateVolume EqualVolume d oldVol newVol =
     (let key = Volume.ServiceUUID oldVol @ Volume.VolumeID oldVol in
      case map_of (volMap d) key of
        None \<Rightarrow> (Some ErrDBRecordNotFound, d)
      | Some vol \<Rightarrow>
          if \<not> EqualVolume oldVol vol True then (Some ErrDBConditionalCheckFailed, d)
          else (None, d\<lparr>volMap := AList.update key newVol (volMap d)\<rparr>))"

definition GetVolume :: "MemDB \<Rightarrow> string \<Rightarrow> string \<Rightarrow> error + Volume" where
  "GetVolume d serviceUUID volumeID =
     (let key = serviceUUID @ volumeID in
      case map_of (volMap d) key of
        None \<Rightarrow> Inl ErrDBRecordNotFound
      | Some cvol \<Rightarrow> Inr (copyVolume cvol))"

definition listVolumesWithLimit :: "MemDB \<Rightarrow> string \<Rightarrow> 64 word \<Rightarrow> error + Volume list" where
  "listVolumesWithLimit d serviceUUID limit =
     Inr (map (\<lambda>(key, vol). copyVolume vol)
            (filter (\<lambda>(key, vol). Volume.ServiceUUID vol = serviceUUID) (volMap d)))"

definition ListVolumes :: "MemDB \<Rightarrow> string \<Rightarrow> error + Volume list" where
  "ListVolumes d serviceUUID = listVolumesWithLimit d serviceUUID 0"

definition DeleteVolume :: "MemDB \<Rightarrow> string \<Rightarrow> string \<Rightarrow> error option \<times> MemDB" where
  "DeleteVolume d serviceUUID volumeID =
     (let key = serviceUUID @ volumeID in
      case map_of (volMap d) key of
        None \<Rightarrow> (Some ErrDBRecordNotFound, d)
      | Some _ \<Rightarrow> (None, d\<lparr>volMap := AList.delete key (volMap d)\<rparr>))"

subsection \<open>Config files\<close>

definition CreateConfigFile :: "MemDB \<Rightarrow> ConfigFile \<Rightarrow> error option \<times> MemDB" where
  "CreateConfigFile d cfg =
     (let key = ConfigFile.ServiceUUID cfg @ ConfigFile.FileID cfg in
      case map_of (cfgMap d) key of
        Some _ \<Rightarrow> (Some ErrDBConditionalCheckFailed, d)
      | None \<Rightarrow> (None, d\<lparr>cfgMap := AList.update key cfg (cfgMap d)\<rparr>))"

definition GetConfigFile :: "MemDB \<Rightarrow> string \<Rightarrow> string \<Rightarrow> error + ConfigFile" where
  "GetConfigFile d serviceUUID fileID =
     (let key = serviceUUID @ fileID in
      case map_of (cfgMap d) key of
        None \<Rightarrow> Inl ErrDBRecordNotFound
      | Some c \<Rightarrow> Inr (copyConfigFile c))"

definition DeleteConfigFile :: "MemDB \<Rightarrow> string \<Rightarrow> string \<Rightarrow> error option \<times> MemDB" where
  "DeleteConfigFile d serviceUUID fileID =
     (let key = serviceUUID @ fileID in
      case map_of (cfgMap d) key of
        None \<Rightarrow> (Some ErrDBRecordNotFound, d)
      | Some _ \<Rightarrow> (None, d\<lparr>cfgMap := AList.delete key (cfgMap d)\<rparr>))"

section \<open>Vocabulary of the properties\<close>

text \<open>Properties of the specification's wording, used to state the claims.\<close>

definition trailing_slashes :: "string \<Rightarrow> nat" where
  "trailing_slashes s = length (takeWhile (\<lambda>c. c = CHR ''/'') (rev s))"

fun Join :: "string list \<Rightarrow> string \<Rightarrow> string" where
  "Join [] sep = []"
| "Join [n] sep = n"
| "Join (n # ns) sep = n @ sep @ Join ns sep"

section \<open>Example inputs\<close>

text \<open>
  A DNS provider whose state counts the invocations of its two methods, and the identity
  of a server.
\<close>

definition counting_DNS :: "nat DNS" where
  "counting_DNS =
     \<lparr>GetOrCreateHostedZoneIDByName = (\<lambda>domainName vpcID vpcRegion private n. (Inr ''zone-1'', Suc n)),
      UpdateServiceDNSRecord = (\<lambda>dnsName hostname hostedZoneID n. (None, Suc n))\<rparr>"

definition local_Info :: Info where
  "local_Info = \<lparr>LocalVpcID = ''vpc-1'', LocalRegion = ''us-west-1'', LocalHostname = ''host-1''\<rparr>"

text \<open>Records of each kind, the fields that matter given as arguments.\<close>

definition mkDevice :: "string \<Rightarrow> string \<Rightarrow> string \<Rightarrow> Device" where
  "mkDevice c n s = \<lparr>Device.ClusterName = c, Device.DeviceName = n, Device.ServiceName = s\<rparr>"

definition mkService :: "string \<Rightarrow> string \<Rightarrow> string \<Rightarrow> Service" where
  "mkService c n u = \<lparr>Service.ClusterName = c, Service.ServiceName = n, Service.ServiceUUID = u\<rparr>"

definition mkServiceAttr :: "string \<Rightarrow> 64 word \<Rightarrow> ServiceAttr" where
  "mkServiceAttr u r =
     \<lparr>ServiceAttr.ServiceUUID = u,
      ServiceAttr.ServiceStatus = ''ACTIVE'',
      ServiceAttr.LastModified = 0,
      ServiceAttr.Replicas = r,
      ServiceAttr.VolumeSizeGB = 1,
      ServiceAttr.ClusterName = ''c1'',
      ServiceAttr.ServiceName = ''pg'',
      ServiceAttr.DeviceName = ''/dev/xvdf'',
      ServiceAttr.HasStrictMembership = True,
      ServiceAttr.DomainName = ''c1-openmanage.com'',
      ServiceAttr.HostedZoneID = ''zone-1''\<rparr>"

definition mkVolume :: "string \<Rightarrow> string \<Rightarrow> string \<Rightarrow> slice \<Rightarrow> Volume" where
  "mkVolume u v t cs =
     \<lparr>Volume.ServiceUUID = u,
      Volume.VolumeID = v,
      Volume.LastModified = 0,
      Volume.DeviceName = ''/dev/xvdf'',
      Volume.AvailableZone = ''az-1'',
      Volume.TaskID = t,
      Volume.ContainerInstanceID = '''',
      Volume.ServerInstanceID = '''',
      Volume.MemberName = ''pg-0'',
      Volume.Configs = cs\<rparr>"

definition mkConfigFile :: "string \<Rightarrow> string \<Rightarrow> string \<Rightarrow> ConfigFile" where
  "mkConfigFile u f c =
     \<lparr>ConfigFile.FileID = f,
      ConfigFile.FileMD5 = '''',
      ConfigFile.FileName = ''pg.conf'',
      ConfigFile.FileMode = 384,
      ConfigFile.ServiceUUID = u,
      ConfigFile.LastModified = 0,
      ConfigFile.Content = c\<rparr>"

text \<open>
  Stores built with the operations of the backend, and a heap that holds the backing array
  of one list of config-file references (the references are file identifiers here).
\<close>

definition db_one_attr :: MemDB where
  "db_one_attr = snd (CreateServiceAttr NewMemDB (mkServiceAttr ''u1'' 3))"

definition db_two_attrs :: MemDB where
  "db_two_attrs = snd (CreateServiceAttr db_one_attr (mkServiceAttr ''u2'' 1))"

definition db_two_devices :: MemDB where
  "db_two_devices =
     snd (CreateDevice (snd (CreateDevice NewMemDB (mkDevice ''c1'' ''d1'' ''pg'')))
            (mkDevice ''c2'' ''d2'' ''pg''))"

definition db_two_services :: MemDB where
  "db_two_services =
     snd (CreateService (snd (CreateService NewMemDB (mkService ''c1'' ''pg'' ''u1'')))
            (mkService ''c2'' ''pg'' ''u2''))"

definition heap_0 :: "string heap" where
  "heap_0 = [0 \<mapsto> [''cfg-1'']]"

definition db_one_volume :: MemDB where
  "db_one_volume = snd (CreateVolume NewMemDB (mkVolume ''u1'' ''v1'' ''task-1'' (Slice 0 1)))"

section \<open>Facts about the string functions\<close>

lemma HasPrefix_iff_prefix: "HasPrefix s pre \<longleftrightarrow> prefix pre s"
  unfolding HasPrefix_def
  by (metis append_eq_conv_conj prefix_def prefix_length_le take_is_prefix)

lemma HasSuffix_iff_suffix: "HasSuffix s suf \<longleftrightarrow> suffix suf s"
  unfolding HasSuffix_def
  by (metis suffix_drop suffix_length_le suffix_def append_eq_conv_conj length_append
      add_diff_cancel_right')

lemma Split_not_Nil: "Split s sep \<noteq> []"
  by (induction s) (auto split: list.splits)

lemma Join_Split: "Join (Split s sep) [sep] = s"
proof (induction s)
  case Nil
  show ?case by simp
next
  case (Cons c cs)
  show ?case
  proof (cases "c = sep")
    case True
    with Cons Split_not_Nil [of cs sep] show ?thesis
      by (cases "Split cs sep") auto
  next
    case False
    with Cons Split_not_Nil [of cs sep] show ?thesis
      by (cases "Split cs sep"; cases "tl (Split cs sep)") auto
  qed
qed

lemma length_Split: "length (Split s sep) = Suc (count_list s sep)"
  by (induction s) (auto split: list.splits simp: Split_not_Nil)

lemma Split_no_sep: "n \<in> set (Split s sep) \<Longrightarrow> sep \<notin> set n"
  by (induction s arbitrary: n) (auto split: if_splits list.splits)

lemma trailing_slashes_snoc:
  "trailing_slashes (s @ [c]) = (if c = CHR ''/'' then Suc (trailing_slashes s) else 0)"
  by (simp add: trailing_slashes_def)

lemma trailing_slashes_0: "s = [] \<or> last s \<noteq> CHR ''/'' \<Longrightarrow> trailing_slashes s = 0"
  by (cases s rule: rev_cases) (auto simp: trailing_slashes_def)

lemma suffix_slash_iff: "suffix ''/'' s \<longleftrightarrow> s \<noteq> [] \<and> last s = CHR ''/''"
  by (cases s rule: rev_cases) (auto simp: suffix_def)

lemma last_two:
  assumes "2 \<le> length xs"
  shows "take (length xs - 2) xs @ [xs ! (length xs - 2), xs ! (length xs - 1)] = xs"
proof -
  from assms obtain ys b where 1: "xs = ys @ [b]" by (cases xs rule: rev_cases) auto
  with assms obtain zs a where 2: "ys = zs @ [a]" by (cases ys rule: rev_cases) auto
  show ?thesis by (simp add: 1 2 nth_append)
qed


section \<open>The naming module\<close>

text \<open>
  Claim C6, as the specification states it: when the input lacks an http-prefixed scheme,
  \<open>FormatMgtServiceURL\<close> prepends \<open>https://\<close> or \<open>http://\<close> after the TLS flag; when it
  has one, the scheme is left untouched; and in all cases the result ends with exactly one
  trailing slash. The last part fails: an input that has the scheme and ends with two
  slashes is returned as it is, so the result ends with two slashes.
\<close>

theorem FormatMgtServiceURL_counterexample:
  "prefix ''http'' ''http://myhost:1234//'' \<and>
   FormatMgtServiceURL ''http://myhost:1234//'' False = ''http://myhost:1234//'' \<and>
   trailing_slashes (FormatMgtServiceURL ''http://myhost:1234//'' False) = 2"
  by (simp add: FormatMgtServiceURL_def HasPrefix_def HasSuffix_def trailing_slashes_def)

text \<open>
  Claim C6, amended: when the input does not start with \<open>http\<close>, the result starts with
  \<open>https://\<close> (TLS) or \<open>http://\<close> followed by the input; when it does, the result is
  the input itself if that ends with a slash, and the input with one slash appended
  otherwise; in all cases the result ends with a slash, and it ends with exactly one
  trailing slash whenever the input is not empty and does not itself end with a slash.
\<close>

theorem FormatMgtServiceURL_amended:
  "(\<not> prefix ''http'' s \<longrightarrow>
      prefix ((if tls then ''https://'' else ''http://'') @ s) (FormatMgtServiceURL s tls)) \<and>
   (prefix ''http'' s \<longrightarrow>
      FormatMgtServiceURL s tls = (if suffix ''/'' s then s else s @ ''/'')) \<and>
   suffix ''/'' (FormatMgtServiceURL s tls) \<and>
   (s \<noteq> [] \<and> \<not> suffix ''/'' s \<longrightarrow> trailing_slashes (FormatMgtServiceURL s tls) = 1)"
proof (intro conjI impI)
  assume "\<not> prefix ''http'' s"
  then show "prefix ((if tls then ''https://'' else ''http://'') @ s) (FormatMgtServiceURL s tls)"
    by (simp add: FormatMgtServiceURL_def HasPrefix_iff_prefix)
next
  assume "prefix ''http'' s"
  then show "FormatMgtServiceURL s tls = (if suffix ''/'' s then s else s @ ''/'')"
    by (simp add: FormatMgtServiceURL_def HasPrefix_iff_prefix HasSuffix_iff_suffix)
next
  show "suffix ''/'' (FormatMgtServiceURL s tls)"
    by (simp add: FormatMgtServiceURL_def HasSuffix_iff_suffix suffix_def)
next
  assume a: "s \<noteq> [] \<and> \<not> suffix ''/'' s"
  then have "trailing_slashes s = 0"
    by (auto simp: trailing_slashes_0 suffix_slash_iff)
  moreover have "FormatMgtServiceURL s tls = s @ ''/'' \<or>
      FormatMgtServiceURL s tls = (''https://'' @ s) @ ''/'' \<or>
      FormatMgtServiceURL s tls = (''http://'' @ s) @ ''/''"
    using a by (simp add: FormatMgtServiceURL_def HasSuffix_iff_suffix)
  moreover have "trailing_slashes (''https://'' @ s) = 0" "trailing_slashes (''http://'' @ s) = 0"
    using a by (auto simp: trailing_slashes_0 suffix_slash_iff)
  ultimately show "trailing_slashes (FormatMgtServiceURL s tls) = 1"
    using trailing_slashes_snoc by (metis One_nat_def)
qed

theorem FormatMgtServiceURL_amended_witness:
  "\<not> prefix ''http'' ''myhost:1234'' \<and>
   FormatMgtServiceURL ''myhost:1234'' False = ''http://myhost:1234/'' \<and>
   prefix ''http'' ''https://myhost:1234'' \<and> \<not> suffix ''/'' ''https://myhost:1234'' \<and>
   FormatMgtServiceURL ''https://myhost:1234'' False = ''https://myhost:1234/'' \<and>
   trailing_slashes (FormatMgtServiceURL ''https://myhost:1234'' False) = 1 \<and>
   trailing_slashes (FormatMgtServiceURL ''myhost:1234'' False) = 1"
  using FormatMgtServiceURL_amended [of "''myhost:1234''" False]
    FormatMgtServiceURL_amended [of "''https://myhost:1234''" False]
  by (simp add: FormatMgtServiceURL_def HasPrefix_def HasSuffix_def trailing_slashes_def
      HasPrefix_iff_prefix [symmetric] HasSuffix_iff_suffix [symmetric])


text \<open>
  Claim C7: \<open>GetDomainNameFromDNSName\<close> returns \<open>ErrDomainNotFound\<close> exactly when splitting
  the input on the dot yields fewer than three labels, and otherwise returns the last two
  labels joined by a dot; \<open>pg-0.c1-openmanage.com\<close> yields \<open>c1-openmanage.com\<close> and
  \<open>badname\<close> yields \<open>ErrDomainNotFound\<close>.
\<close>

theorem GetDomainNameFromDNSName_spec:
  "(GetDomainNameFromDNSName s = Inl ErrDomainNotFound \<longleftrightarrow> length (Split s CHR ''.'') < 3) \<and>
   (3 \<le> length (Split s CHR ''.'') \<longrightarrow>
      (\<exists>pre a b. Split s CHR ''.'' = pre @ [a, b] \<and>
         GetDomainNameFromDNSName s = Inr (a @ ''.'' @ b))) \<and>
   GetDomainNameFromDNSName ''pg-0.c1-openmanage.com'' = Inr ''c1-openmanage.com'' \<and>
   GetDomainNameFromDNSName ''badname'' = Inl ErrDomainNotFound"
proof (intro conjI impI)
  show "GetDomainNameFromDNSName s = Inl ErrDomainNotFound \<longleftrightarrow> length (Split s CHR ''.'') < 3"
    by (simp add: GetDomainNameFromDNSName_def dnsNameSeparator_def Let_def)
next
  assume len: "3 \<le> length (Split s CHR ''.'')"
  define names where "names = Split s CHR ''.''"
  define l where "l = length names"
  from len have l3: "3 \<le> l" by (simp add: l_def names_def)
  have "names = take (l - 2) names @ [names ! (l - 2), names ! (l - 1)]"
    using last_two [of names] l3 by (simp add: l_def)
  moreover have "GetDomainNameFromDNSName s = Inr (names ! (l - 2) @ ''.'' @ names ! (l - 1))"
    using len by (simp add: GetDomainNameFromDNSName_def dnsNameSeparator_def Let_def names_def l_def)
  ultimately show "\<exists>pre a b. Split s CHR ''.'' = pre @ [a, b] \<and>
         GetDomainNameFromDNSName s = Inr (a @ ''.'' @ b)"
    unfolding names_def [symmetric] by blast
next
  show "GetDomainNameFromDNSName ''pg-0.c1-openmanage.com'' = Inr ''c1-openmanage.com''"
    by (simp add: GetDomainNameFromDNSName_def dnsNameSeparator_def Let_def)
next
  show "GetDomainNameFromDNSName ''badname'' = Inl ErrDomainNotFound"
    by (simp add: GetDomainNameFromDNSName_def dnsNameSeparator_def Let_def)
qed

theorem GetDomainNameFromDNSName_spec_witness:
  "3 \<le> length (Split ''aa1.test.com'' CHR ''.'') \<and>
   Split ''aa1.test.com'' CHR ''.'' = [''aa1'', ''test'', ''com''] \<and>
   GetDomainNameFromDNSName ''aa1.test.com'' = Inr ''test.com''"
  using GetDomainNameFromDNSName_spec [of "''aa1.test.com''"] by simp

section \<open>The discovery registrar\<close>

text \<open>
  Claim C8: when \<open>dnsName\<close> does not end with \<open>domainName\<close>, \<open>RegisterDNSName\<close> returns
  \<open>ErrDomainNotFound\<close> and does not invoke the DNS provider: the provider's state and the
  record of its invocations are as they were, whatever the provider is.
\<close>

theorem RegisterDNSName_DomainNotFound:
  assumes "\<not> suffix domainName dnsName"
  shows "RegisterDNSName domainName dnsName serverInfo dnsIns (st, calls) =
           (Some ErrDomainNotFound, (st, calls))"
  using assms by (simp add: RegisterDNSName_def HasSuffix_iff_suffix)

theorem RegisterDNSName_DomainNotFound_witness:
  "\<not> suffix ''other.com'' ''pg-0.c1-openmanage.com'' \<and>
   RegisterDNSName ''other.com'' ''pg-0.c1-openmanage.com'' local_Info counting_DNS (0, []) =
     (Some ErrDomainNotFound, (0, []))"
proof -
  have h: "\<not> suffix ''other.com'' ''pg-0.c1-openmanage.com''"
    by (simp add: HasSuffix_iff_suffix [symmetric] HasSuffix_def)
  show ?thesis
    using h RegisterDNSName_DomainNotFound [OF h, of local_Info counting_DNS 0 "[]"] by simp
qed

text \<open>
  When \<open>dnsName\<close> ends with \<open>domainName\<close> the provider is invoked, so the record of
  invocations does tell the two cases apart.
\<close>

lemma RegisterDNSName_calls:
  "RegisterDNSName ''c1-openmanage.com'' ''pg-0.c1-openmanage.com'' local_Info counting_DNS (0, []) =
     (None, (2,
       [CallGetOrCreateHostedZoneIDByName ''c1-openmanage.com'' ''vpc-1'' ''us-west-1'' True,
        CallUpdateServiceDNSRecord ''pg-0.c1-openmanage.com'' ''host-1'' ''zone-1'']))"
  by (simp add: RegisterDNSName_def HasSuffix_def local_Info_def counting_DNS_def)

lemma RegisterDNSName_invokes:
  assumes "suffix domainName dnsName"
  shows "prefix (calls @ [CallGetOrCreateHostedZoneIDByName domainName (LocalVpcID serverInfo)
            (LocalRegion serverInfo) True])
          (snd (snd (RegisterDNSName domainName dnsName serverInfo dnsIns (st, calls))))"
  using assms
  by (simp add: RegisterDNSName_def HasSuffix_iff_suffix Let_def split: prod.splits sum.splits)


section \<open>The in-memory backend\<close>

subsection \<open>Reading and creating\<close>

text \<open>
  Each copy function rebuilds the record field by field, so the copy is equal to the
  original as a value; for a volume that includes the slice header of \<open>Configs\<close>.
\<close>

lemma copyDevice_id: "copyDevice t = t"
  by (simp add: copyDevice_def)

lemma copyService_id: "copyService t = t"
  by (simp add: copyService_def)

lemma copyServiceAttr_id: "copyServiceAttr t = t"
  by (simp add: copyServiceAttr_def)

lemma copyVolume_id: "copyVolume t = t"
  by (simp add: copyVolume_def)

lemma copyConfigFile_id: "copyConfigFile t = t"
  by (simp add: copyConfigFile_def)

lemmas copy_id = copyDevice_id copyService_id copyServiceAttr_id copyVolume_id copyConfigFile_id

lemma GetDevice_conv:
  "GetDevice d c n = (case map_of (devMap d) (c @ n) of None \<Rightarrow> Inl ErrDBRecordNotFound | Some x \<Rightarrow> Inr x)"
  by (simp add: GetDevice_def copy_id split: option.splits)

lemma GetService_conv:
  "GetService d c n = (case map_of (svcMap d) (c @ n) of None \<Rightarrow> Inl ErrDBRecordNotFound | Some x \<Rightarrow> Inr x)"
  by (simp add: GetService_def copy_id split: option.splits)

lemma GetServiceAttr_conv:
  "GetServiceAttr d u = (case map_of (svcAttrMap d) u of None \<Rightarrow> Inl ErrDBRecordNotFound | Some x \<Rightarrow> Inr x)"
  by (simp add: GetServiceAttr_def copy_id split: option.splits)

lemma GetVolume_conv:
  "GetVolume d u v = (case map_of (volMap d) (u @ v) of None \<Rightarrow> Inl ErrDBRecordNotFound | Some x \<Rightarrow> Inr x)"
  by (simp add: GetVolume_def copy_id split: option.splits)

lemma GetConfigFile_conv:
  "GetConfigFile d u f = (case map_of (cfgMap d) (u @ f) of None \<Rightarrow> Inl ErrDBRecordNotFound | Some x \<Rightarrow> Inr x)"
  by (simp add: GetConfigFile_def copy_id split: option.splits)

lemmas Get_conv = GetDevice_conv GetService_conv GetServiceAttr_conv GetVolume_conv GetConfigFile_conv

lemma Get_NotFound_iff:
  "GetDevice d c n = Inl ErrDBRecordNotFound \<longleftrightarrow> map_of (devMap d) (c @ n) = None"
  "GetService d c n = Inl ErrDBRecordNotFound \<longleftrightarrow> map_of (svcMap d) (c @ n) = None"
  "GetServiceAttr d u = Inl ErrDBRecordNotFound \<longleftrightarrow> map_of (svcAttrMap d) u = None"
  "GetVolume d u v = Inl ErrDBRecordNotFound \<longleftrightarrow> map_of (volMap d) (u @ v) = None"
  "GetConfigFile d u f = Inl ErrDBRecordNotFound \<longleftrightarrow> map_of (cfgMap d) (u @ f) = None"
  by (simp_all add: Get_conv split: option.splits)

lemma CreateDevice_ok:
  "CreateDevice d dev = (None, d1) \<longleftrightarrow>
     map_of (devMap d) (Device.ClusterName dev @ Device.DeviceName dev) = None \<and>
     d1 = d\<lparr>devMap := AList.update (Device.ClusterName dev @ Device.DeviceName dev) dev (devMap d)\<rparr>"
  by (auto simp: CreateDevice_def Let_def split: option.splits)

lemma CreateService_ok:
  "CreateService d svc = (None, d1) \<longleftrightarrow>
     map_of (svcMap d) (Service.ClusterName svc @ Service.ServiceName svc) = None \<and>
     d1 = d\<lparr>svcMap := AList.update (Service.ClusterName svc @ Service.ServiceName svc) svc (svcMap d)\<rparr>"
  by (auto simp: CreateService_def Let_def split: option.splits)

lemma CreateServiceAttr_ok:
  "CreateServiceAttr d attr = (None, d1) \<longleftrightarrow>
     map_of (svcAttrMap d) (ServiceAttr.ServiceUUID attr) = None \<and>
     d1 = d\<lparr>svcAttrMap := AList.update (ServiceAttr.ServiceUUID attr) attr (svcAttrMap d)\<rparr>"
  by (auto simp: CreateServiceAttr_def Let_def split: option.splits)

lemma CreateVolume_ok:
  "CreateVolume d vol = (None, d1) \<longleftrightarrow>
     map_of (volMap d) (Volume.ServiceUUID vol @ Volume.VolumeID vol) = None \<and>
     d1 = d\<lparr>volMap := AList.update (Volume.ServiceUUID vol @ Volume.VolumeID vol) vol (volMap d)\<rparr>"
  by (auto simp: CreateVolume_def Let_def split: option.splits)

lemma CreateConfigFile_ok:
  "CreateConfigFile d cfg = (None, d1) \<longleftrightarrow>
     map_of (cfgMap d) (ConfigFile.ServiceUUID cfg @ ConfigFile.FileID cfg) = None \<and>
     d1 = d\<lparr>cfgMap := AList.update (ConfigFile.ServiceUUID cfg @ ConfigFile.FileID cfg) cfg (cfgMap d)\<rparr>"
  by (auto simp: CreateConfigFile_def Let_def split: option.splits)

lemmas Create_ok = CreateDevice_ok CreateService_ok CreateServiceAttr_ok CreateVolume_ok
  CreateConfigFile_ok

lemma Create_exists:
  "map_of (devMap d) (Device.ClusterName dev @ Device.DeviceName dev) = Some x \<Longrightarrow>
     CreateDevice d dev = (Some ErrDBConditionalCheckFailed, d)"
  "map_of (svcMap d) (Service.ClusterName svc @ Service.ServiceName svc) = Some y \<Longrightarrow>
     CreateService d svc = (Some ErrDBConditionalCheckFailed, d)"
  "map_of (svcAttrMap d) (ServiceAttr.ServiceUUID attr) = Some z \<Longrightarrow>
     CreateServiceAttr d attr = (Some ErrDBConditionalCheckFailed, d)"
  "map_of (volMap d) (Volume.ServiceUUID vol @ Volume.VolumeID vol) = Some v \<Longrightarrow>
     CreateVolume d vol = (Some ErrDBConditionalCheckFailed, d)"
  "map_of (cfgMap d) (ConfigFile.ServiceUUID cfg @ ConfigFile.FileID cfg) = Some w \<Longrightarrow>
     CreateConfigFile d cfg = (Some ErrDBConditionalCheckFailed, d)"
  by (simp_all add: CreateDevice_def CreateService_def CreateServiceAttr_def CreateVolume_def
      CreateConfigFile_def Let_def)

lemmas mk_defs = mkDevice_def mkService_def mkServiceAttr_def mkVolume_def mkConfigFile_def

lemmas op_defs = CreateDevice_def CreateService_def CreateServiceAttr_def CreateVolume_def
  CreateConfigFile_def NewMemDB_def Let_def

lemmas get_defs = GetDevice_def GetService_def GetServiceAttr_def GetVolume_def GetConfigFile_def
  copyDevice_def copyService_def copyServiceAttr_def copyVolume_def copyConfigFile_def

subsection \<open>Create and Get\<close>

text \<open>
  Claim C5: for every kind of record and every store, when \<open>Create\<close> of a record succeeds,
  \<open>Get\<close> of the record's identity on the store after it returns a value equal to the
  record. For a volume the value returned has the slice header of the record created, so
  its list of config-file references reads the same in every heap.
\<close>

theorem Create_then_Get:
  "(CreateDevice d dev = (None, d1) \<longrightarrow>
      GetDevice d1 (Device.ClusterName dev) (Device.DeviceName dev) = Inr dev) \<and>
   (CreateService d svc = (None, d2) \<longrightarrow>
      GetService d2 (Service.ClusterName svc) (Service.ServiceName svc) = Inr svc) \<and>
   (CreateServiceAttr d attr = (None, d3) \<longrightarrow>
      GetServiceAttr d3 (ServiceAttr.ServiceUUID attr) = Inr attr) \<and>
   (CreateVolume d vol = (None, d4) \<longrightarrow>
      GetVolume d4 (Volume.ServiceUUID vol) (Volume.VolumeID vol) = Inr vol) \<and>
   (CreateConfigFile d cfg = (None, d5) \<longrightarrow>
      GetConfigFile d5 (ConfigFile.ServiceUUID cfg) (ConfigFile.FileID cfg) = Inr cfg)"
  by (simp add: Create_ok Get_conv update_conv')


theorem Create_then_Get_witness:
  "fst (CreateDevice NewMemDB (mkDevice ''c1'' ''d1'' ''pg'')) = None \<and>
   GetDevice (snd (CreateDevice NewMemDB (mkDevice ''c1'' ''d1'' ''pg''))) ''c1'' ''d1'' =
     Inr (mkDevice ''c1'' ''d1'' ''pg'') \<and>
   fst (CreateService NewMemDB (mkService ''c1'' ''pg'' ''u1'')) = None \<and>
   GetService (snd (CreateService NewMemDB (mkService ''c1'' ''pg'' ''u1''))) ''c1'' ''pg'' =
     Inr (mkService ''c1'' ''pg'' ''u1'') \<and>
   fst (CreateServiceAttr NewMemDB (mkServiceAttr ''u1'' 3)) = None \<and>
   GetServiceAttr (snd (CreateServiceAttr NewMemDB (mkServiceAttr ''u1'' 3))) ''u1'' =
     Inr (mkServiceAttr ''u1'' 3) \<and>
   fst (CreateVolume NewMemDB (mkVolume ''u1'' ''v1'' ''task-1'' NilSlice)) = None \<and>
   GetVolume (snd (CreateVolume NewMemDB (mkVolume ''u1'' ''v1'' ''task-1'' NilSlice))) ''u1'' ''v1'' =
     Inr (mkVolume ''u1'' ''v1'' ''task-1'' NilSlice) \<and>
   fst (CreateConfigFile NewMemDB (mkConfigFile ''u1'' ''f1'' ''port=5432'')) = None \<and>
   GetConfigFile (snd (CreateConfigFile NewMemDB (mkConfigFile ''u1'' ''f1'' ''port=5432''))) ''u1'' ''f1'' =
     Inr (mkConfigFile ''u1'' ''f1'' ''port=5432'')"
  using Create_then_Get [of NewMemDB "mkDevice ''c1'' ''d1'' ''pg''"
      "snd (CreateDevice NewMemDB (mkDevice ''c1'' ''d1'' ''pg''))"
      "mkService ''c1'' ''pg'' ''u1''"
      "snd (CreateService NewMemDB (mkService ''c1'' ''pg'' ''u1''))"
      "mkServiceAttr ''u1'' 3"
      "snd (CreateServiceAttr NewMemDB (mkServiceAttr ''u1'' 3))"
      "mkVolume ''u1'' ''v1'' ''task-1'' NilSlice"
      "snd (CreateVolume NewMemDB (mkVolume ''u1'' ''v1'' ''task-1'' NilSlice))"
      "mkConfigFile ''u1'' ''f1'' ''port=5432''"
      "snd (CreateConfigFile NewMemDB (mkConfigFile ''u1'' ''f1'' ''port=5432''))"]
  by (simp add: op_defs mk_defs)

text \<open>
  Claim C4: for every kind of record, in a store where \<open>Get\<close> of the identity reports
  \<open>ErrDBRecordNotFound\<close>, \<open>Create\<close> of a record succeeds; a second \<open>Create\<close> of a record
  with the same identity returns \<open>ErrDBConditionalCheckFailed\<close> and returns the store as
  it was after the first, in which \<open>Get\<close> still returns the first record.
\<close>

theorem Create_twice:
  "(GetDevice d (Device.ClusterName dev) (Device.DeviceName dev) = Inl ErrDBRecordNotFound \<and>
    Device.ClusterName dev' = Device.ClusterName dev \<and>
    Device.DeviceName dev' = Device.DeviceName dev \<longrightarrow>
      (\<exists>d1. CreateDevice d dev = (None, d1) \<and>
            CreateDevice d1 dev' = (Some ErrDBConditionalCheckFailed, d1) \<and>
            GetDevice d1 (Device.ClusterName dev) (Device.DeviceName dev) = Inr dev)) \<and>
   (GetService d (Service.ClusterName svc) (Service.ServiceName svc) = Inl ErrDBRecordNotFound \<and>
    Service.ClusterName svc' = Service.ClusterName svc \<and>
    Service.ServiceName svc' = Service.ServiceName svc \<longrightarrow>
      (\<exists>d1. CreateService d svc = (None, d1) \<and>
            CreateService d1 svc' = (Some ErrDBConditionalCheckFailed, d1) \<and>
            GetService d1 (Service.ClusterName svc) (Service.ServiceName svc) = Inr svc)) \<and>
   (GetServiceAttr d (ServiceAttr.ServiceUUID attr) = Inl ErrDBRecordNotFound \<and>
    ServiceAttr.ServiceUUID attr' = ServiceAttr.ServiceUUID attr \<longrightarrow>
      (\<exists>d1. CreateServiceAttr d attr = (None, d1) \<and>
            CreateServiceAttr d1 attr' = (Some ErrDBConditionalCheckFailed, d1) \<and>
            GetServiceAttr d1 (ServiceAttr.ServiceUUID attr) = Inr attr)) \<and>
   (GetVolume d (Volume.ServiceUUID vol) (Volume.VolumeID vol) = Inl ErrDBRecordNotFound \<and>
    Volume.ServiceUUID vol' = Volume.ServiceUUID vol \<and>
    Volume.VolumeID vol' = Volume.VolumeID vol \<longrightarrow>
      (\<exists>d1. CreateVolume d vol = (None, d1) \<and>
            CreateVolume d1 vol' = (Some ErrDBConditionalCheckFailed, d1) \<and>
            GetVolume d1 (Volume.ServiceUUID vol) (Volume.VolumeID vol) = Inr vol)) \<and>
   (GetConfigFile d (ConfigFile.ServiceUUID cfg) (ConfigFile.FileID cfg) = Inl ErrDBRecordNotFound \<and>
    ConfigFile.ServiceUUID cfg' = ConfigFile.ServiceUUID cfg \<and>
    ConfigFile.FileID cfg' = ConfigFile.FileID cfg \<longrightarrow>
      (\<exists>d1. CreateConfigFile d cfg = (None, d1) \<and>
            CreateConfigFile d1 cfg' = (Some ErrDBConditionalCheckFailed, d1) \<and>
            GetConfigFile d1 (ConfigFile.ServiceUUID cfg) (ConfigFile.FileID cfg) = Inr cfg))"
proof (intro conjI impI)
  assume "GetDevice d (Device.ClusterName dev) (Device.DeviceName dev) = Inl ErrDBRecordNotFound \<and>
    Device.ClusterName dev' = Device.ClusterName dev \<and>
    Device.DeviceName dev' = Device.DeviceName dev"
  then show "\<exists>d1. CreateDevice d dev = (None, d1) \<and>
            CreateDevice d1 dev' = (Some ErrDBConditionalCheckFailed, d1) \<and>
            GetDevice d1 (Device.ClusterName dev) (Device.DeviceName dev) = Inr dev"
    by (clarsimp simp: Get_NotFound_iff) (simp add: Create_ok Get_conv Create_exists update_conv')
next
  assume "GetService d (Service.ClusterName svc) (Service.ServiceName svc) = Inl ErrDBRecordNotFound \<and>
    Service.ClusterName svc' = Service.ClusterName svc \<and>
    Service.ServiceName svc' = Service.ServiceName svc"
  then show "\<exists>d1. CreateService d svc = (None, d1) \<and>
            CreateService d1 svc' = (Some ErrDBConditionalCheckFailed, d1) \<and>
            GetService d1 (Service.ClusterName svc) (Service.ServiceName svc) = Inr svc"
    by (clarsimp simp: Get_NotFound_iff) (simp add: Create_ok Get_conv Create_exists update_conv')
next
  assume "GetServiceAttr d (ServiceAttr.ServiceUUID attr) = Inl ErrDBRecordNotFound \<and>
    ServiceAttr.ServiceUUID attr' = ServiceAttr.ServiceUUID attr"
  then show "\<exists>d1. CreateServiceAttr d attr = (None, d1) \<and>
            CreateServiceAttr d1 attr' = (Some ErrDBConditionalCheckFailed, d1) \<and>
            GetServiceAttr d1 (ServiceAttr.ServiceUUID attr) = Inr attr"
    by (clarsimp simp: Get_NotFound_iff) (simp add: Create_ok Get_conv Create_exists update_conv')
next
  assume "GetVolume d (Volume.ServiceUUID vol) (Volume.VolumeID vol) = Inl ErrDBRecordNotFound \<and>
    Volume.ServiceUUID vol' = Volume.ServiceUUID vol \<and>
    Volume.VolumeID vol' = Volume.VolumeID vol"
  then show "\<exists>d1. CreateVolume d vol = (None, d1) \<and>
            CreateVolume d1 vol' = (Some ErrDBConditionalCheckFailed, d1) \<and>
            GetVolume d1 (Volume.ServiceUUID vol) (Volume.VolumeID vol) = Inr vol"
    by (clarsimp simp: Get_NotFound_iff) (simp add: Create_ok Get_conv Create_exists update_conv')
next
  assume "GetConfigFile d (ConfigFile.ServiceUUID cfg) (ConfigFile.FileID cfg) = Inl ErrDBRecordNotFound \<and>
    ConfigFile.ServiceUUID cfg' = ConfigFile.ServiceUUID cfg \<and>
    ConfigFile.FileID cfg' = ConfigFile.FileID cfg"
  then show "\<exists>d1. CreateConfigFile d cfg = (None, d1) \<and>
            CreateConfigFile d1 cfg' = (Some ErrDBConditionalCheckFailed, d1) \<and>
            GetConfigFile d1 (ConfigFile.ServiceUUID cfg) (ConfigFile.FileID cfg) = Inr cfg"
    by (clarsimp simp: Get_NotFound_iff) (simp add: Create_ok Get_conv Create_exists update_conv')
qed


theorem Create_twice_witness:
  "GetDevice NewMemDB ''c1'' ''d1'' = Inl ErrDBRecordNotFound \<and>
   fst (CreateDevice NewMemDB (mkDevice ''c1'' ''d1'' ''pg'')) = None \<and>
   CreateDevice (snd (CreateDevice NewMemDB (mkDevice ''c1'' ''d1'' ''pg''))) (mkDevice ''c1'' ''d1'' ''redis'') =
     (Some ErrDBConditionalCheckFailed, snd (CreateDevice NewMemDB (mkDevice ''c1'' ''d1'' ''pg''))) \<and>
   GetService NewMemDB ''c1'' ''pg'' = Inl ErrDBRecordNotFound \<and>
   fst (CreateService NewMemDB (mkService ''c1'' ''pg'' ''u1'')) = None \<and>
   CreateService (snd (CreateService NewMemDB (mkService ''c1'' ''pg'' ''u1''))) (mkService ''c1'' ''pg'' ''u2'') =
     (Some ErrDBConditionalCheckFailed, snd (CreateService NewMemDB (mkService ''c1'' ''pg'' ''u1''))) \<and>
   GetServiceAttr NewMemDB ''u1'' = Inl ErrDBRecordNotFound \<and>
   fst (CreateServiceAttr NewMemDB (mkServiceAttr ''u1'' 3)) = None \<and>
   CreateServiceAttr (snd (CreateServiceAttr NewMemDB (mkServiceAttr ''u1'' 3))) (mkServiceAttr ''u1'' 5) =
     (Some ErrDBConditionalCheckFailed, snd (CreateServiceAttr NewMemDB (mkServiceAttr ''u1'' 3))) \<and>
   GetVolume NewMemDB ''u1'' ''v1'' = Inl ErrDBRecordNotFound \<and>
   fst (CreateVolume NewMemDB (mkVolume ''u1'' ''v1'' ''task-1'' NilSlice)) = None \<and>
   CreateVolume (snd (CreateVolume NewMemDB (mkVolume ''u1'' ''v1'' ''task-1'' NilSlice)))
       (mkVolume ''u1'' ''v1'' ''task-2'' NilSlice) =
     (Some ErrDBConditionalCheckFailed,
      snd (CreateVolume NewMemDB (mkVolume ''u1'' ''v1'' ''task-1'' NilSlice))) \<and>
   GetConfigFile NewMemDB ''u1'' ''f1'' = Inl ErrDBRecordNotFound \<and>
   fst (CreateConfigFile NewMemDB (mkConfigFile ''u1'' ''f1'' ''port=5432'')) = None \<and>
   CreateConfigFile (snd (CreateConfigFile NewMemDB (mkConfigFile ''u1'' ''f1'' ''port=5432'')))
       (mkConfigFile ''u1'' ''f1'' ''port=5433'') =
     (Some ErrDBConditionalCheckFailed,
      snd (CreateConfigFile NewMemDB (mkConfigFile ''u1'' ''f1'' ''port=5432'')))"
  using Create_twice [of NewMemDB "mkDevice ''c1'' ''d1'' ''pg''" "mkDevice ''c1'' ''d1'' ''redis''"
      "mkService ''c1'' ''pg'' ''u1''" "mkService ''c1'' ''pg'' ''u2''"
      "mkServiceAttr ''u1'' 3" "mkServiceAttr ''u1'' 5"
      "mkVolume ''u1'' ''v1'' ''task-1'' NilSlice" "mkVolume ''u1'' ''v1'' ''task-2'' NilSlice"
      "mkConfigFile ''u1'' ''f1'' ''port=5432''" "mkConfigFile ''u1'' ''f1'' ''port=5433''"]
  by (simp add: op_defs mk_defs get_defs)

subsection \<open>Keys by concatenation\<close>

text \<open>
  Claim C9: the key of a device is the concatenation of cluster name and device name with
  no separator, so two identities with the same concatenation share one entry. After
  \<open>CreateDevice\<close> of the first succeeds, \<open>GetDevice\<close> of the second returns the first
  record, not \<open>ErrDBRecordNotFound\<close>, and \<open>CreateDevice\<close> of the second fails with
  \<open>ErrDBConditionalCheckFailed\<close>. The identities \<open>(ab, c)\<close> and \<open>(a, bc)\<close> are such a
  pair.
\<close>

theorem CreateDevice_key_collision:
  assumes "CreateDevice d dev1 = (None, d1)"
    and "Device.ClusterName dev1 @ Device.DeviceName dev1 = c2 @ n2"
    and "Device.ClusterName dev2 = c2" and "Device.DeviceName dev2 = n2"
  shows "GetDevice d1 c2 n2 = Inr dev1 \<and>
         CreateDevice d1 dev2 = (Some ErrDBConditionalCheckFailed, d1)"
proof -
  from assms(1,2) have "map_of (devMap d1) (c2 @ n2) = Some dev1"
    by (simp add: CreateDevice_ok update_conv')
  with assms(3,4) show ?thesis
    by (simp add: GetDevice_conv Create_exists)
qed


theorem CreateDevice_key_collision_witness:
  "(''ab'', ''c'') \<noteq> (''a'', ''bc'') \<and> ''ab'' @ ''c'' = ''a'' @ ''bc'' \<and>
   GetDevice NewMemDB ''a'' ''bc'' = Inl ErrDBRecordNotFound \<and>
   CreateDevice NewMemDB (mkDevice ''ab'' ''c'' ''pg'') =
     (None, snd (CreateDevice NewMemDB (mkDevice ''ab'' ''c'' ''pg''))) \<and>
   GetDevice (snd (CreateDevice NewMemDB (mkDevice ''ab'' ''c'' ''pg''))) ''a'' ''bc'' =
     Inr (mkDevice ''ab'' ''c'' ''pg'') \<and>
   CreateDevice (snd (CreateDevice NewMemDB (mkDevice ''ab'' ''c'' ''pg''))) (mkDevice ''a'' ''bc'' ''redis'') =
     (Some ErrDBConditionalCheckFailed, snd (CreateDevice NewMemDB (mkDevice ''ab'' ''c'' ''pg'')))"
proof -
  have 1: "CreateDevice NewMemDB (mkDevice ''ab'' ''c'' ''pg'') =
     (None, snd (CreateDevice NewMemDB (mkDevice ''ab'' ''c'' ''pg'')))"
    by (simp add: op_defs mk_defs)
  have 2: "Device.ClusterName (mkDevice ''ab'' ''c'' ''pg'') @ Device.DeviceName (mkDevice ''ab'' ''c'' ''pg'')
      = ''a'' @ ''bc''"
    by (simp add: mk_defs)
  have 3: "Device.ClusterName (mkDevice ''a'' ''bc'' ''redis'') = ''a''"
    and 4: "Device.DeviceName (mkDevice ''a'' ''bc'' ''redis'') = ''bc''"
    by (simp_all add: mk_defs)
  have 5: "GetDevice NewMemDB ''a'' ''bc'' = Inl ErrDBRecordNotFound"
    by (simp add: GetDevice_def NewMemDB_def)
  from CreateDevice_key_collision [OF 1 2 3 4] 1 5 show ?thesis by simp
qed

subsection \<open>Update\<close>

text \<open>
  \<open>UpdateVolume\<close> succeeds exactly when a volume is stored under the old volume's key and
  the comparison accepts it; \<open>UpdateServiceAttr\<close> succeeds whenever a record is stored
  under the old attribute's UUID.
\<close>

lemma UpdateVolume_succeeds_iff:
  "fst (UpdateVolume EqualVolume d oldVol newVol) = None \<longleftrightarrow>
     (\<exists>vol. GetVolume d (Volume.ServiceUUID oldVol) (Volume.VolumeID oldVol) = Inr vol \<and>
            EqualVolume oldVol vol True)"
  by (simp add: UpdateVolume_def GetVolume_conv Let_def split: option.splits)

lemma UpdateVolume_result:
  "UpdateVolume EqualVolume d oldVol newVol =
     (case GetVolume d (Volume.ServiceUUID oldVol) (Volume.VolumeID oldVol) of
        Inl e \<Rightarrow> (Some ErrDBRecordNotFound, d)
      | Inr vol \<Rightarrow>
          if EqualVolume oldVol vol True
          then (None, d\<lparr>volMap := AList.update (Volume.ServiceUUID oldVol @ Volume.VolumeID oldVol)
                                   newVol (volMap d)\<rparr>)
          else (Some ErrDBConditionalCheckFailed, d))"
  by (simp add: UpdateVolume_def GetVolume_conv Let_def split: option.splits)

lemma UpdateServiceAttr_succeeds_iff:
  "fst (UpdateServiceAttr d oldAttr newAttr) = None \<longleftrightarrow>
     (\<exists>attr. GetServiceAttr d (ServiceAttr.ServiceUUID oldAttr) = Inr attr)"
  by (simp add: UpdateServiceAttr_def GetServiceAttr_conv split: option.splits)

text \<open>
  Claim C1 says that \<open>Update\<close> of a service attribute fails with
  \<open>ErrDBConditionalCheckFailed\<close> when the stored record does not equal the old record.
  \<open>UpdateServiceAttr\<close> makes no comparison: with the record of replica count 3 stored,
  an update whose old record has replica count 1 succeeds and replaces the stored record.
\<close>

theorem UpdateServiceAttr_stale_old:
  "GetServiceAttr db_one_attr ''u1'' = Inr (mkServiceAttr ''u1'' 3) \<and>
   mkServiceAttr ''u1'' 1 \<noteq> mkServiceAttr ''u1'' 3 \<and>
   fst (UpdateServiceAttr db_one_attr (mkServiceAttr ''u1'' 1) (mkServiceAttr ''u1'' 5)) = None \<and>
   GetServiceAttr (snd (UpdateServiceAttr db_one_attr (mkServiceAttr ''u1'' 1) (mkServiceAttr ''u1'' 5))) ''u1''
     = Inr (mkServiceAttr ''u1'' 5)"
  by (simp add: db_one_attr_def UpdateServiceAttr_def op_defs mk_defs get_defs)

text \<open>
  Claim C10, as stated: for every stored attribute with UUID \<open>u\<close> and every new attribute
  with another UUID \<open>u'\<close>, after the update \<open>GetServiceAttr(u')\<close> returns
  \<open>ErrDBRecordNotFound\<close>. That fails in a store that holds a record under \<open>u'\<close> as well:
  the update leaves that record where it is, and \<open>GetServiceAttr(u')\<close> returns it.
\<close>

theorem UpdateServiceAttr_other_UUID_counterexample:
  "GetServiceAttr db_two_attrs ''u1'' = Inr (mkServiceAttr ''u1'' 3) \<and>
   ServiceAttr.ServiceUUID (mkServiceAttr ''u2'' 5) = ''u2'' \<and> ''u2'' \<noteq> ''u1'' \<and>
   fst (UpdateServiceAttr db_two_attrs (mkServiceAttr ''u1'' 3) (mkServiceAttr ''u2'' 5)) = None \<and>
   GetServiceAttr (snd (UpdateServiceAttr db_two_attrs (mkServiceAttr ''u1'' 3) (mkServiceAttr ''u2'' 5))) ''u2''
     = Inr (mkServiceAttr ''u2'' 1) \<and>
   GetServiceAttr (snd (UpdateServiceAttr db_two_attrs (mkServiceAttr ''u1'' 3) (mkServiceAttr ''u2'' 5))) ''u2''
     \<noteq> Inl ErrDBRecordNotFound"
  by (simp add: db_two_attrs_def db_one_attr_def UpdateServiceAttr_def op_defs mk_defs get_defs)

text \<open>
  Claim C10, amended: \<open>UpdateServiceAttr\<close> does not look at the identity of the new
  record. For every store in which the old record is the one stored under its UUID \<open>u\<close>
  and every new record, whatever its UUID \<open>u'\<close>, the update succeeds; afterwards
  \<open>GetServiceAttr(u)\<close> returns the new record, and \<open>GetServiceAttr\<close> of every other
  UUID, \<open>u'\<close> included, returns what it returned before the update, which is
  \<open>ErrDBRecordNotFound\<close> when nothing was stored under \<open>u'\<close>.
\<close>

theorem UpdateServiceAttr_keeps_old_key:
  assumes "GetServiceAttr d (ServiceAttr.ServiceUUID oldAttr) = Inr oldAttr"
  shows "\<exists>d1. UpdateServiceAttr d oldAttr newAttr = (None, d1) \<and>
           GetServiceAttr d1 (ServiceAttr.ServiceUUID oldAttr) = Inr newAttr \<and>
           (\<forall>u'. u' \<noteq> ServiceAttr.ServiceUUID oldAttr \<longrightarrow>
                  GetServiceAttr d1 u' = GetServiceAttr d u')"
proof -
  from assms have "map_of (svcAttrMap d) (ServiceAttr.ServiceUUID oldAttr) = Some oldAttr"
    by (simp add: GetServiceAttr_conv split: option.splits)
  then show ?thesis
    by (simp add: UpdateServiceAttr_def GetServiceAttr_conv update_conv')
qed


theorem UpdateServiceAttr_keeps_old_key_witness:
  "GetServiceAttr db_one_attr ''u1'' = Inr (mkServiceAttr ''u1'' 3) \<and>
   ServiceAttr.ServiceUUID (mkServiceAttr ''u2'' 5) = ''u2'' \<and>
   UpdateServiceAttr db_one_attr (mkServiceAttr ''u1'' 3) (mkServiceAttr ''u2'' 5) =
     (None, snd (UpdateServiceAttr db_one_attr (mkServiceAttr ''u1'' 3) (mkServiceAttr ''u2'' 5))) \<and>
   GetServiceAttr (snd (UpdateServiceAttr db_one_attr (mkServiceAttr ''u1'' 3) (mkServiceAttr ''u2'' 5))) ''u1''
     = Inr (mkServiceAttr ''u2'' 5) \<and>
   GetServiceAttr (snd (UpdateServiceAttr db_one_attr (mkServiceAttr ''u1'' 3) (mkServiceAttr ''u2'' 5))) ''u2''
     = Inl ErrDBRecordNotFound"
proof -
  have u: "ServiceAttr.ServiceUUID (mkServiceAttr ''u1'' 3) = ''u1''"
    by (simp add: mk_defs)
  have h: "GetServiceAttr db_one_attr (ServiceAttr.ServiceUUID (mkServiceAttr ''u1'' 3)) =
      Inr (mkServiceAttr ''u1'' 3)"
    by (simp add: db_one_attr_def op_defs mk_defs get_defs)
  have n: "GetServiceAttr db_one_attr ''u2'' = Inl ErrDBRecordNotFound"
    by (simp add: db_one_attr_def op_defs mk_defs get_defs)
  from UpdateServiceAttr_keeps_old_key [OF h, of "mkServiceAttr ''u2'' 5"]
  obtain d1 where
    1: "UpdateServiceAttr db_one_attr (mkServiceAttr ''u1'' 3) (mkServiceAttr ''u2'' 5) = (None, d1)"
    and 2: "GetServiceAttr d1 ''u1'' = Inr (mkServiceAttr ''u2'' 5)"
    and 3: "\<forall>u'. u' \<noteq> ''u1'' \<longrightarrow> GetServiceAttr d1 u' = GetServiceAttr db_one_attr u'"
    unfolding u by blast
  from 3 n have "GetServiceAttr d1 ''u2'' = Inl ErrDBRecordNotFound" by simp
  with 1 2 h u show ?thesis by (simp add: mk_defs)
qed

subsection \<open>List\<close>

text \<open>
  \<open>ListDevices\<close> and \<open>ListServices\<close> do not read their cluster name; \<open>ListVolumes\<close>
  returns the stored volumes whose \<open>ServiceUUID\<close> field is the argument.
\<close>

lemma ListDevices_ignores_cluster: "ListDevices d clusterName = ListDevices d clusterName'"
  by (simp add: ListDevices_def listDevicesWithLimit_def)

lemma ListServices_ignores_cluster: "ListServices d clusterName = ListServices d clusterName'"
  by (simp add: ListServices_def listServicesWithLimit_def)

lemma ListVolumes_set:
  "\<exists>vols. ListVolumes d serviceUUID = Inr vols \<and>
     set vols = {vol \<in> snd ` set (volMap d). Volume.ServiceUUID vol = serviceUUID}"
  by (force simp: ListVolumes_def listVolumesWithLimit_def copyVolume_id)

text \<open>
  Claim C2 says that a listing returns only the records of the partition asked for. In a
  store with one device in cluster \<open>c1\<close> and one in cluster \<open>c2\<close>, \<open>ListDevices\<close> of
  \<open>c1\<close> returns both; \<open>ListServices\<close> does the same with services.
\<close>

theorem ListDevices_foreign_cluster:
  "ListDevices db_two_devices ''c1'' =
     Inr [mkDevice ''c1'' ''d1'' ''pg'', mkDevice ''c2'' ''d2'' ''pg''] \<and>
   Device.ClusterName (mkDevice ''c2'' ''d2'' ''pg'') \<noteq> ''c1'' \<and>
   ListServices db_two_services ''c1'' =
     Inr [mkService ''c1'' ''pg'' ''u1'', mkService ''c2'' ''pg'' ''u2''] \<and>
   Service.ClusterName (mkService ''c2'' ''pg'' ''u2'') \<noteq> ''c1''"
  by (simp add: db_two_devices_def db_two_services_def ListDevices_def listDevicesWithLimit_def
      ListServices_def listServicesWithLimit_def op_defs mk_defs get_defs)

subsection \<open>Copies and the list of config-file references\<close>

text \<open>
  Claim C3 says that changing any part of a record returned by \<open>Get\<close> never changes what
  a later \<open>Get\<close> returns. \<open>copyVolume\<close> copies the slice header of \<open>Configs\<close>, so the
  volume returned refers to the backing array of the stored volume: after the caller
  assigns to element 0 of the returned list, the next \<open>GetVolume\<close>, on the same store,
  returns a volume whose list holds the caller's value.
\<close>

theorem GetVolume_shares_Configs:
  "GetVolume db_one_volume ''u1'' ''v1'' = Inr (mkVolume ''u1'' ''v1'' ''task-1'' (Slice 0 1)) \<and>
   slice_elems heap_0 (Volume.Configs (mkVolume ''u1'' ''v1'' ''task-1'' (Slice 0 1))) = [''cfg-1''] \<and>
   slice_store heap_0 (Volume.Configs (mkVolume ''u1'' ''v1'' ''task-1'' (Slice 0 1))) 0 ''cfg-x'' =
     Some (heap_0(0 \<mapsto> [''cfg-x''])) \<and>
   (case GetVolume db_one_volume ''u1'' ''v1'' of
      Inl e \<Rightarrow> []
    | Inr vol \<Rightarrow> slice_elems (heap_0(0 \<mapsto> [''cfg-x''])) (Volume.Configs vol)) = [''cfg-x'']"
  by (simp add: db_one_volume_def heap_0_def slice_elems_def slice_store_def op_defs mk_defs get_defs)


end
